theory Spec2Isabelle
  imports Main "HOL-Library.Word"
begin

unbundle bit_operations_syntax

section \<open>Bytes, strings and formatting\<close>

text \<open>
  A Go \<open>string\<close> and a Go \<open>[]byte\<close> are both sequences of bytes; both are modelled as
  \<^typ>\<open>string\<close>, whose characters are the 256 byte values. The conversion
  \<open>string(out)\<close> is therefore the identity.
\<close>

type_synonym bytes = string

text \<open>\<open>fmt.Sprintf("%d", n)\<close> for a non-negative \<open>n\<close>: decimal digits, no padding.\<close>

fun decimal :: "nat \<Rightarrow> string" where
  "decimal n =
     (if n < 10 then [''0123456789'' ! n]
      else decimal (n div 10) @ [''0123456789'' ! (n mod 10)])"

declare decimal.simps [simp del]

text \<open>\<open>fmt.Sprintf("%x", b)\<close> for a byte slice: two lower-case hex digits per byte.\<close>

definition hexdigit :: "nat \<Rightarrow> char" where
  "hexdigit n = ''0123456789abcdef'' ! (n mod 16)"

definition hex :: "bytes \<Rightarrow> string" where
  "hex bs = concat (map (\<lambda>c. [hexdigit (of_char c div 16), hexdigit (of_char c mod 16)]) bs)"

text \<open>\<open>strings.Join\<close>.\<close>

fun Join :: "string list \<Rightarrow> string \<Rightarrow> string" where
  "Join [] sep = []"
| "Join [x] sep = x"
| "Join (x # y # ys) sep = x @ sep @ Join (y # ys) sep"

text \<open>
  \<open>strings.Fields\<close>: the maximal runs of non-space bytes. The space characters are the
  ASCII ones of \<open>unicode.IsSpace\<close>; bytes above \<open>0x7F\<close> are not decoded, so the
  Unicode spaces outside ASCII count as ordinary bytes here.
\<close>

definition isSpace :: "char \<Rightarrow> bool" where
  "isSpace c = (c = CHR 0x09 \<or> c = CHR 0x0A \<or> c = CHR 0x0B \<or> c = CHR 0x0C
      \<or> c = CHR 0x0D \<or> c = CHR '' '')"

fun FieldsFrom :: "string \<Rightarrow> string \<Rightarrow> string list" where
  "FieldsFrom cur [] = (if cur = [] then [] else [cur])"
| "FieldsFrom cur (c # cs) =
     (if isSpace c then (if cur = [] then FieldsFrom [] cs else cur # FieldsFrom [] cs)
      else FieldsFrom (cur @ [c]) cs)"

definition Fields :: "string \<Rightarrow> string list" where
  "Fields s = FieldsFrom [] s"

section \<open>SHA-1 (\<open>crypto/sha1\<close>)\<close>

text \<open>
  The hash of FIPS 180-4 on 32-bit words: the message is padded with \<open>0x80\<close>, zero bytes
  and its length in bits as a 64-bit big-endian number, cut into 64-byte blocks, and each
  block is run through 80 rounds.
\<close>

type_synonym u32 = "32 word"

definition byte_of :: "char \<Rightarrow> u32" where
  "byte_of c = of_nat (of_char c)"

definition be32 :: "bytes \<Rightarrow> u32" where
  "be32 bs = foldl (\<lambda>acc c. push_bit 8 acc OR byte_of c) 0 bs"

definition be_bytes :: "nat \<Rightarrow> nat \<Rightarrow> bytes" where
  "be_bytes k n = map (\<lambda>i. char_of (n div 256 ^ (k - 1 - i))) [0..<k]"

definition sha1_pad :: "bytes \<Rightarrow> bytes" where
  "sha1_pad m =
     m @ [CHR 0x80] @ replicate ((119 - length m mod 64) mod 64) (CHR 0x00)
       @ be_bytes 8 ((8 * length m) mod 2 ^ 64)"

definition sha1_blocks :: "bytes \<Rightarrow> bytes list" where
  "sha1_blocks p = map (\<lambda>i. take 64 (drop (64 * i) p)) [0..<length p div 64]"

definition block_words :: "bytes \<Rightarrow> u32 list" where
  "block_words blk = map (\<lambda>i. be32 (take 4 (drop (4 * i) blk))) [0..<16]"

text \<open>The message schedule, most recent word first.\<close>

fun schedule :: "nat \<Rightarrow> u32 list \<Rightarrow> u32 list" where
  "schedule 0 ws = ws"
| "schedule (Suc n) ws =
     schedule n (word_rotl 1 (ws ! 2 XOR ws ! 7 XOR ws ! 13 XOR ws ! 15) # ws)"

type_synonym sha1_state = "u32 \<times> u32 \<times> u32 \<times> u32 \<times> u32"

definition sha1_f :: "nat \<Rightarrow> u32 \<Rightarrow> u32 \<Rightarrow> u32 \<Rightarrow> u32" where
  "sha1_f t b c d =
     (if t < 20 then (b AND c) OR (NOT b AND d)
      else if t < 40 then b XOR c XOR d
      else if t < 60 then (b AND c) OR (b AND d) OR (c AND d)
      else b XOR c XOR d)"

definition sha1_k :: "nat \<Rightarrow> u32" where
  "sha1_k t =
     (if t < 20 then 0x5A827999 else if t < 40 then 0x6ED9EBA1
      else if t < 60 then 0x8F1BBCDC else 0xCA62C1D6)"

fun rounds :: "nat \<Rightarrow> u32 list \<Rightarrow> sha1_state \<Rightarrow> sha1_state" where
  "rounds t [] s = s"
| "rounds t (w # ws) (a, b, c, d, e) =
     rounds (Suc t) ws
       (word_rotl 5 a + sha1_f t b c d + e + w + sha1_k t, a, word_rotl 30 b, c, d)"

definition sha1_block :: "sha1_state \<Rightarrow> bytes \<Rightarrow> sha1_state" where
  "sha1_block s blk =
     (case s of (h0, h1, h2, h3, h4) \<Rightarrow>
        (case rounds 0 (rev (schedule 64 (rev (block_words blk)))) s of
           (a, b, c, d, e) \<Rightarrow> (h0 + a, h1 + b, h2 + c, h3 + d, h4 + e)))"

definition sha1_init :: sha1_state where
  "sha1_init = (0x67452301, 0xEFCDAB89, 0x98BADCFE, 0x10325476, 0xC3D2E1F0)"

definition sha1 :: "bytes \<Rightarrow> bytes" where
  "sha1 m =
     (case foldl sha1_block sha1_init (sha1_blocks (sha1_pad m)) of
        (h0, h1, h2, h3, h4) \<Rightarrow> concat (map (\<lambda>h. be_bytes 4 (unat h)) [h0, h1, h2, h3, h4]))"

text \<open>
  The \<open>hash.Hash\<close> interface as \<open>GetFileSHA1\<close> uses it: the state is what has been
  written so far, \<open>Write\<close> appends and never fails, \<open>Sum(b)\<close> appends the digest of
  everything written to \<open>b\<close>.
\<close>

type_synonym hash = bytes

definition sha1_New :: hash where
  "sha1_New = []"

definition hash_Write :: "hash \<Rightarrow> bytes \<Rightarrow> hash" where
  "hash_Write h p = h @ p"

definition hash_Sum :: "hash \<Rightarrow> bytes \<Rightarrow> bytes" where
  "hash_Sum h b = b @ sha1 h"

section \<open>The world outside the program\<close>

text \<open>
  Errors that come from the operating system or from \<open>os/exec\<close>, and the errors of the
  program: an operating-system error passed on, a message built with \<open>fmt.Errorf\<close>, or
  a value made with \<open>errors.New\<close>.
\<close>

datatype os_error = PathError string string | ExecError string | ExitError nat

datatype error = OSError os_error | Errorf string | ErrorsNew string

text \<open>
  One run of an external command, as its caller can observe it: whether the pipes could be
  made and the process started, whether writing its standard input and reading its
  standard output worked, what it printed, how it ended, and the files it left behind.
\<close>

record proc =
  stdin_pipe_err :: "os_error option"
  stdout_pipe_err :: "os_error option"
  start_err :: "os_error option"
  write_err :: "os_error option"
  read_err :: "os_error option"
  proc_stdout :: bytes
  proc_stderr :: bytes
  wait_err :: "os_error option"
  files_after :: "string \<rightharpoonup> bytes"

text \<open>The environment variables the program consults, by the name of their constant.\<close>

datatype env_var = ENV_GEMNASIUM_BUNDLE_UPDATE_CMD

text \<open>
  The world: the files that can be read, with their bytes; a schedule of read faults (each
  read of a file takes the next entry, and fails when it is \<open>True\<close>, whatever the file
  holds); what the program has printed; the environment; the executables on the search
  path; and what running a command (its arguments, its standard input, the files it
  finds) does.
\<close>

record world =
  files :: "string \<rightharpoonup> bytes"
  faults :: "bool list"
  console :: string
  environ :: "env_var \<Rightarrow> string"
  search_path :: "string \<Rightarrow> os_error + string"
  spawn :: "string list \<Rightarrow> bytes \<Rightarrow> (string \<rightharpoonup> bytes) \<Rightarrow> proc"

definition Printf :: "string \<Rightarrow> world \<Rightarrow> world" where
  "Printf s w = w\<lparr>console := console w @ s\<rparr>"

text \<open>\<open>ioutil.ReadFile\<close>.\<close>

definition ReadFile :: "string \<Rightarrow> world \<Rightarrow> (os_error + bytes) \<times> world" where
  "ReadFile filename w =
     (case faults w of
        True # rest \<Rightarrow> (Inl (PathError ''read'' filename), w\<lparr>faults := rest\<rparr>)
      | _ \<Rightarrow>
        (case files w filename of
           None \<Rightarrow> (Inl (PathError ''open'' filename), w\<lparr>faults := tl (faults w)\<rparr>)
         | Some dat \<Rightarrow> (Inr dat, w\<lparr>faults := tl (faults w)\<rparr>)))"

section \<open>\<open>models/dependency_file.go\<close>\<close>

record DependencyFile =
  Path :: string
  SHA :: string
  Content :: bytes

text \<open>\<open>GetFileSHA1\<close>: the git SHA1 of the given file.\<close>

definition GetFileSHA1 :: "string \<Rightarrow> world \<Rightarrow> (os_error + string) \<times> world" where
  "GetFileSHA1 filePath w =
     (case ReadFile filePath w of
        (Inl err, w') \<Rightarrow> (Inl err, w')
      | (Inr dat, w') \<Rightarrow>
          (let h = sha1_New;
               header = ''blob '' @ decimal (length dat) @ [CHR 0x00];
               h = hash_Write h header;
               h = hash_Write h dat;
               hash = hash_Sum h []
           in (Inr (hex hash), w')))"

text \<open>\<open>NewDependencyFile\<close>: \<open>None\<close> is the nil pointer.\<close>

definition NewDependencyFile :: "string \<Rightarrow> world \<Rightarrow> DependencyFile option \<times> world" where
  "NewDependencyFile filePath w =
     (case ReadFile filePath w of
        (Inl err, w') \<Rightarrow> (None, w')
      | (Inr content, w') \<Rightarrow>
          (case GetFileSHA1 filePath w' of
             (Inl err, w'') \<Rightarrow> (None, w'')
           | (Inr sha, w'') \<Rightarrow>
               (Some \<lparr>Path = filePath, SHA = sha, Content = content\<rparr>, w'')))"

text \<open>
  The methods on \<open>*DependencyFile\<close> take the file and return it as they leave it, next
  to the error (\<open>None\<close> is \<open>nil\<close>) and the world.
\<close>

definition CheckFileSHA1 :: "DependencyFile \<Rightarrow> world \<Rightarrow> error option \<times> world" where
  "CheckFileSHA1 df w =
     (case GetFileSHA1 (Path df) w of
        (Inl err, w') \<Rightarrow> (Some (OSError err), w')
      | (Inr sum1, w') \<Rightarrow>
          (if sum1 \<noteq> SHA df
           then (Some (Errorf (Path df @ '': File signature doesn't match (expected: ''
                   @ SHA df @ '', got: '' @ sum1 @ '')'')), w')
           else (None, w')))"

definition UpdateSHA :: "DependencyFile \<Rightarrow> world \<Rightarrow> error option \<times> DependencyFile \<times> world" where
  "UpdateSHA df w =
     (case GetFileSHA1 (Path df) w of
        (Inl err, w') \<Rightarrow> (Some (OSError err), df, w')
      | (Inr sha, w') \<Rightarrow> (None, df\<lparr>SHA := sha\<rparr>, w'))"

definition Update :: "DependencyFile \<Rightarrow> world \<Rightarrow> error option \<times> DependencyFile \<times> world" where
  "Update df w =
     (case ReadFile (Path df) w of
        (Inl err, w') \<Rightarrow> (Some (OSError err), df, w')
      | (Inr content, w') \<Rightarrow>
          (case UpdateSHA (df\<lparr>Content := content\<rparr>) w' of
             (Some err, df', w'') \<Rightarrow> (Some err, df', w'')
           | (None, df', w'') \<Rightarrow> (None, df', w'')))"

text \<open>
  \<open>Patch\<close>: the patch tool is looked up and started on the file's path, the patch text
  is written to its standard input, its standard output is read to the end, and its exit
  is awaited. Once the tool has started, the files are as it leaves them.
\<close>

definition Patch :: "DependencyFile \<Rightarrow> string \<Rightarrow> world \<Rightarrow> error option \<times> DependencyFile \<times> world" where
  "Patch df patch w =
     (case search_path w ''patch'' of
        Inl err \<Rightarrow> (Some (OSError err), df, w)
      | Inr patchPath \<Rightarrow>
          (let cmd = spawn w [patchPath, Path df] patch (files w) in
           case stdin_pipe_err cmd of Some err \<Rightarrow> (Some (OSError err), df, w) | None \<Rightarrow>
           (case stdout_pipe_err cmd of Some err \<Rightarrow> (Some (OSError err), df, w) | None \<Rightarrow>
           (case start_err cmd of Some err \<Rightarrow> (Some (OSError err), df, w) | None \<Rightarrow>
           (let w1 = w\<lparr>files := files_after cmd\<rparr> in
            case write_err cmd of Some err \<Rightarrow> (Some (OSError err), df, w1) | None \<Rightarrow>
            (case read_err cmd of Some err \<Rightarrow> (Some (OSError err), df, w1) | None \<Rightarrow>
            (let out = proc_stdout cmd in
             case wait_err cmd of
               Some err \<Rightarrow> (Some (OSError err), df, Printf (out @ [CHR 0x0A]) w1)
             | None \<Rightarrow>
                 (case Update df w1 of
                    (Some err, df', w2) \<Rightarrow> (Some err, df', w2)
                  | (None, df', w2) \<Rightarrow> (None, df', w2)))))))))"

section \<open>The updaters of package \<open>autoupdate\<close>\<close>

text \<open>
  Modelled from the spec: the types \<open>VersionUpdate\<close> and \<open>Package\<close> are declared
  outside the source at hand. A version update is a package identifier, its currently
  known version and the target version; the updater reads \<open>vu.Package.Name\<close>,
  \<open>vu.OldVersion\<close> and \<open>vu.TargetVersion\<close> and prints them as strings.
\<close>

record package =
  Name :: string

record VersionUpdate =
  Package :: package
  OldVersion :: string
  TargetVersion :: string

definition BUNDLE_UPDATE_CMD :: string where
  "BUNDLE_UPDATE_CMD = ''bundle update''"

definition cantUpdateVersions :: error where
  "cantUpdateVersions = ErrorsNew ''Can't update versions''"

text \<open>
  \<open>regexp.MustCompile("(?m)^Bundler could not find compatible versions for gem")\<close> and
  its \<open>MatchString\<close>: the text matches when the literal stands at the beginning of the
  text or right after a line feed. The flag says whether the position is such a place.
\<close>

fun MatchAtLineStart :: "string \<Rightarrow> bool \<Rightarrow> string \<Rightarrow> bool" where
  "MatchAtLineStart lit bol [] = (bol \<and> lit = [])"
| "MatchAtLineStart lit bol (c # cs) =
     ((bol \<and> take (length lit) (c # cs) = lit) \<or> MatchAtLineStart lit (c = CHR 0x0A) cs)"

definition couldNotFindCompatibleVersion :: "string \<Rightarrow> bool" where
  "couldNotFindCompatibleVersion s =
     MatchAtLineStart ''Bundler could not find compatible versions for gem'' True s"

text \<open>
  \<open>exec.Command(name, arg...).Output()\<close>: the command runs with no standard input;
  what it wrote to its standard output is returned, with the error of starting it or of
  its exit. Its standard error is not part of what is returned. A name that cannot be
  resolved on the search path is a start error of the run.
\<close>

definition Output :: "string \<Rightarrow> string list \<Rightarrow> world \<Rightarrow> (bytes \<times> os_error option) \<times> world" where
  "Output name arg w =
     (let cmd = spawn w (name # arg) [] (files w) in
      case start_err cmd of
        Some err \<Rightarrow> (([], Some err), w)
      | None \<Rightarrow> ((proc_stdout cmd, wait_err cmd), w\<lparr>files := files_after cmd\<rparr>))"

text \<open>
  A call either returns its error value (\<open>None\<close> is \<open>nil\<close>) or panics. The two slices
  the caller passes by reference are returned as the call leaves them.
\<close>

datatype panic = NilDereference | IndexOutOfRange

datatype outcome = Returned "error option" | Panicked panic

record updated =
  outcome :: outcome
  org_files :: "DependencyFile list"
  upt_files :: "DependencyFile list"
  world_after :: world

text \<open>The loop over the version updates: a progress line and one more argument each.\<close>

fun add_packages :: "VersionUpdate list \<Rightarrow> string list \<times> world \<Rightarrow> string list \<times> world" where
  "add_packages [] (parts, w) = (parts, w)"
| "add_packages (vu # vus) (parts, w) =
     add_packages vus
       (parts @ [Name (Package vu)],
        Printf (''Updating dependency '' @ Name (Package vu) @ '' ('' @ OldVersion vu
                 @ '' => '' @ TargetVersion vu @ '')'' @ [CHR 0x0A]) w)"

definition RubygemsUpdater ::
  "VersionUpdate list \<Rightarrow> DependencyFile list \<Rightarrow> DependencyFile list \<Rightarrow> world \<Rightarrow> updated" where
  "RubygemsUpdater versionUpdates orgDepFiles uptDepFiles w =
     (case NewDependencyFile ''Gemfile.lock'' w of
        (None, w1) \<Rightarrow>
          \<lparr>outcome = Panicked NilDereference, org_files = orgDepFiles, upt_files = uptDepFiles,
           world_after = w1\<rparr>
      | (Some GemfileLock, w1) \<Rightarrow>
          (let org' = orgDepFiles @ [GemfileLock];
               uptEnv = environ w1 ENV_GEMNASIUM_BUNDLE_UPDATE_CMD;
               upt_cmd = (if uptEnv \<noteq> [] then uptEnv else BUNDLE_UPDATE_CMD);
               (parts, w2) = add_packages versionUpdates (Fields upt_cmd, w1);
               w3 = Printf (''Executing update commmand: '' @ Join parts '' '' @ [CHR 0x0A]) w2
           in case parts of
                [] \<Rightarrow>
                  \<lparr>outcome = Panicked IndexOutOfRange, org_files = org', upt_files = uptDepFiles,
                   world_after = w3\<rparr>
              | name # arg \<Rightarrow>
                  (case Output name arg w3 of
                     ((out, Some err), w4) \<Rightarrow>
                       (if couldNotFindCompatibleVersion out
                        then \<lparr>outcome = Returned (Some cantUpdateVersions), org_files = org',
                              upt_files = uptDepFiles, world_after = w4\<rparr>
                        else \<lparr>outcome = Returned (Some (OSError err)), org_files = org',
                              upt_files = uptDepFiles, world_after = Printf (out @ [CHR 0x0A]) w4\<rparr>)
                   | ((out, None), w4) \<Rightarrow>
                       (case Update GemfileLock w4 of
                          (_, GemfileLock', w5) \<Rightarrow>
                            \<lparr>outcome = Returned None, org_files = org',
                             upt_files = uptDepFiles @ [GemfileLock'], world_after = w5\<rparr>))))"

section \<open>The fingerprint as the specification words it\<close>

text \<open>
  The specification's convention for the fingerprint of a content:
  \<open>hash("blob " + byteLength + NUL + content)\<close>, the hash being the 160-bit SHA-1 and
  the result its hex encoding. The theorems compare what the code computes with it.
\<close>

definition fingerprint :: "bytes \<Rightarrow> string" where
  "fingerprint content =
     hex (sha1 (''blob '' @ decimal (length content) @ [CHR 0x00] @ content))"

section \<open>Concrete worlds\<close>

text \<open>
  A run of a command in which nothing goes wrong around it: it prints \<open>out\<close> and
  \<open>err\<close>, ends with \<open>status\<close> and leaves the files \<open>fs\<close>.
\<close>

definition run :: "bytes \<Rightarrow> bytes \<Rightarrow> os_error option \<Rightarrow> (string \<rightharpoonup> bytes) \<Rightarrow> proc" where
  "run out err status fs =
     \<lparr>stdin_pipe_err = None, stdout_pipe_err = None, start_err = None, write_err = None,
      read_err = None, proc_stdout = out, proc_stderr = err, wait_err = status,
      files_after = fs\<rparr>"

text \<open>
  A world with the files \<open>fs\<close>, the read faults \<open>fl\<close>, nothing printed yet, no
  environment variable set, every executable found under \<open>/usr/bin\<close>, and commands
  that behave as \<open>prog\<close> says.
\<close>

definition host ::
  "(string \<rightharpoonup> bytes) \<Rightarrow> bool list \<Rightarrow> (string list \<Rightarrow> bytes \<Rightarrow> (string \<rightharpoonup> bytes) \<Rightarrow> proc) \<Rightarrow> world" where
  "host fs fl prog =
     \<lparr>files = fs, faults = fl, console = [], environ = (\<lambda>v. []),
      search_path = (\<lambda>name. Inr (''/usr/bin/'' @ name)), spawn = prog\<rparr>"

text \<open>
  The lock file holds \<open>GEM\<close>; every command succeeds, prints nothing and changes no
  file.
\<close>

definition world_idle :: world where
  "world_idle = host [''Gemfile.lock'' \<mapsto> ''GEM''] [] (\<lambda>argv inp fs. run [] [] None fs)"

text \<open>Every command succeeds and leaves \<open>NEW\<close> in the lock file.\<close>

definition world_rewrite :: world where
  "world_rewrite =
     host [''Gemfile.lock'' \<mapsto> ''GEM''] []
       (\<lambda>argv inp fs. run ''done'' [] None (fs(''Gemfile.lock'' \<mapsto> ''NEW'')))"

text \<open>
  Every command reports the version conflict on its standard output and exits with
  status 6.
\<close>

definition world_conflict :: world where
  "world_conflict =
     host [''Gemfile.lock'' \<mapsto> ''GEM''] []
       (\<lambda>argv inp fs.
          run (''Resolving dependencies...'' @ [CHR 0x0A]
               @ ''Bundler could not find compatible versions for gem rails'' @ [CHR 0x0A])
            [] (Some (ExitError 6)) fs)"

text \<open>The same report, on the standard error of the command.\<close>

definition world_conflict_stderr :: world where
  "world_conflict_stderr =
     host [''Gemfile.lock'' \<mapsto> ''GEM''] []
       (\<lambda>argv inp fs.
          run [] (''Bundler could not find compatible versions for gem rails'' @ [CHR 0x0A])
            (Some (ExitError 6)) fs)"

text \<open>
  Every command leaves \<open>HALF\<close> in the lock file, prints \<open>boom\<close> and exits with
  status 1.
\<close>

definition world_broken :: world where
  "world_broken =
     host [''Gemfile.lock'' \<mapsto> ''GEM''] []
       (\<lambda>argv inp fs. run ''boom'' [] (Some (ExitError 1)) (fs(''Gemfile.lock'' \<mapsto> ''HALF'')))"

text \<open>There is no lock file.\<close>

definition world_no_lock :: world where
  "world_no_lock = host Map.empty [] (\<lambda>argv inp fs. run [] [] None fs)"

text \<open>The lock file holds \<open>NEW\<close>; the first read works and the second one fails.\<close>

definition world_second_read_fails :: world where
  "world_second_read_fails =
     host [''Gemfile.lock'' \<mapsto> ''NEW''] [False, True] (\<lambda>argv inp fs. run [] [] None fs)"

text \<open>A dependency file as it was stored when the lock file held \<open>OLD\<close>.\<close>

definition stored_old :: DependencyFile where
  "stored_old = \<lparr>Path = ''Gemfile.lock'', SHA = fingerprint ''OLD'', Content = ''OLD''\<rparr>"

section \<open>Facts about the model\<close>

lemma ReadFile_keeps:
  "ReadFile p w = (r, w') \<Longrightarrow>
     files w' = files w \<and> spawn w' = spawn w \<and> environ w' = environ w
     \<and> console w' = console w \<and> search_path w' = search_path w"
  by (auto simp: ReadFile_def split: list.splits bool.splits option.splits)

lemma ReadFile_Inr:
  "ReadFile p w = (Inr dat, w') \<Longrightarrow> files w p = Some dat"
  by (auto simp: ReadFile_def split: list.splits bool.splits option.splits)

lemma GetFileSHA1_eq:
  "GetFileSHA1 p w =
     (case ReadFile p w of
        (Inl e, w') \<Rightarrow> (Inl e, w')
      | (Inr dat, w') \<Rightarrow> (Inr (fingerprint dat), w'))"
  by (simp add: GetFileSHA1_def fingerprint_def sha1_New_def hash_Write_def hash_Sum_def
        split: prod.splits sum.splits)

lemma length_be_bytes: "length (be_bytes k n) = k"
  by (simp add: be_bytes_def)

lemma length_sha1: "length (sha1 m) = 20"
  by (simp add: sha1_def length_be_bytes split: prod.splits)

lemma length_hex: "length (hex bs) = 2 * length bs"
  by (induction bs) (simp_all add: hex_def)

lemma length_fingerprint: "length (fingerprint dat) = 40"
  by (simp add: fingerprint_def length_hex length_sha1)

lemma GetFileSHA1_keeps:
  "GetFileSHA1 p w = (r, w') \<Longrightarrow>
     files w' = files w \<and> spawn w' = spawn w \<and> environ w' = environ w
     \<and> console w' = console w \<and> search_path w' = search_path w"
  by (auto simp: GetFileSHA1_eq split: prod.splits sum.splits dest: ReadFile_keeps)

lemma GetFileSHA1_Inr:
  "GetFileSHA1 p w = (Inr s, w') \<Longrightarrow> \<exists>dat. files w p = Some dat \<and> s = fingerprint dat"
  by (auto simp: GetFileSHA1_eq split: prod.splits sum.splits dest: ReadFile_Inr)








lemma UpdateSHA_cases:
  assumes "UpdateSHA df w = (r, df', w')"
  shows "Path df' = Path df \<and> Content df' = Content df \<and> files w' = files w
         \<and> (case r of
               Some e \<Rightarrow> SHA df' = SHA df
             | None \<Rightarrow> (\<exists>b. files w (Path df) = Some b \<and> SHA df' = fingerprint b))"
  using assms
  by (auto simp: UpdateSHA_def split: prod.splits sum.splits
        dest: GetFileSHA1_Inr GetFileSHA1_keeps)

lemma Update_cases:
  assumes "Update df w = (r, df', w')"
  shows "Path df' = Path df \<and> files w' = files w
         \<and> (case r of
               Some e \<Rightarrow> SHA df' = SHA df
             | None \<Rightarrow> files w (Path df) = Some (Content df')
                        \<and> SHA df' = fingerprint (Content df'))"
proof (cases "ReadFile (Path df) w")
  case (Pair x w1)
  show ?thesis
  proof (cases x)
    case (Inl e)
    with Pair assms show ?thesis
      by (auto simp: Update_def dest: ReadFile_keeps)
  next
    case (Inr content)
    with Pair have c: "files w (Path df) = Some content" and k: "files w1 = files w"
      by (auto dest: ReadFile_Inr ReadFile_keeps)
    obtain r2 df2 w2 where u: "UpdateSHA (df\<lparr>Content := content\<rparr>) w1 = (r2, df2, w2)"
      by (cases "UpdateSHA (df\<lparr>Content := content\<rparr>) w1") auto
    from UpdateSHA_cases [OF u] c k Pair Inr u assms show ?thesis
      by (auto simp: Update_def split: option.splits)
  qed
qed




text \<open>What evaluating the model in a concrete world unfolds.\<close>

lemmas run_world =
  RubygemsUpdater_def NewDependencyFile_def GetFileSHA1_eq ReadFile_def host_def run_def
  Output_def Update_def UpdateSHA_def CheckFileSHA1_def Patch_def Fields_def
  BUNDLE_UPDATE_CMD_def isSpace_def Printf_def Let_def couldNotFindCompatibleVersion_def
  cantUpdateVersions_def

lemmas worlds =
  world_idle_def world_rewrite_def world_conflict_def world_conflict_stderr_def
  world_broken_def world_no_lock_def world_second_read_fails_def stored_old_def

section \<open>Content fingerprinting\<close>

text \<open>
  C5. For every file that can be read, \<open>GetFileSHA1\<close> returns the hex encoding of the
  SHA-1 hash of the bytes \<open>"blob "\<close>, the decimal length of the content, a NUL byte and
  the content. The hash has 160 bits. The result depends on the content bytes only: any
  read, of any path in any world, that yields the same bytes yields the same fingerprint.
\<close>

theorem GetFileSHA1_is_blob_sha1:
  assumes "ReadFile filePath w = (Inr dat, w')"
  shows "GetFileSHA1 filePath w
           = (Inr (hex (sha1 (''blob '' @ decimal (length dat) @ [CHR 0x00] @ dat))), w')
         \<and> 8 * length (sha1 (''blob '' @ decimal (length dat) @ [CHR 0x00] @ dat)) = 160
         \<and> (\<forall>p v v'. ReadFile p v = (Inr dat, v')
               \<longrightarrow> fst (GetFileSHA1 p v) = fst (GetFileSHA1 filePath w))"
  using assms by (simp add: GetFileSHA1_eq fingerprint_def length_sha1)

theorem GetFileSHA1_is_blob_sha1_witness:
  "ReadFile ''Gemfile.lock'' world_idle = (Inr ''GEM'', world_idle)
   \<and> GetFileSHA1 ''Gemfile.lock'' world_idle
       = (Inr (hex (sha1 (''blob 3'' @ [CHR 0x00] @ ''GEM''))), world_idle)"
proof -
  have r: "ReadFile ''Gemfile.lock'' world_idle = (Inr ''GEM'', world_idle)"
    by (simp add: ReadFile_def host_def world_idle_def)
  from GetFileSHA1_is_blob_sha1 [OF r] r show ?thesis
    by (simp add: decimal.simps)
qed

text \<open>
  C8. A resync followed by a verification succeeds: when \<open>Update\<close> has returned no error
  and the file is read again, in any world where it holds the bytes it held after the
  resync, the fingerprint recomputed from disk is the stored one and \<open>CheckFileSHA1\<close>
  returns no error.
\<close>

theorem Update_then_CheckFileSHA1:
  assumes "Update df w = (None, df', w')"
    and "ReadFile (Path df) v = (Inr dat, v')"
    and "files v (Path df) = files w' (Path df)"
  shows "CheckFileSHA1 df' v = (None, v') \<and> GetFileSHA1 (Path df') v = (Inr (SHA df'), v')"
proof -
  from Update_cases [OF assms(1)] have
    p: "Path df' = Path df" and f: "files w' = files w" and
    c: "files w (Path df) = Some (Content df')" and s: "SHA df' = fingerprint (Content df')"
    by simp_all
  from assms(2) have "files v (Path df) = Some dat" by (rule ReadFile_Inr)
  with assms(3) f c have "dat = Content df'" by simp
  with assms(2) p s have g: "GetFileSHA1 (Path df') v = (Inr (SHA df'), v')"
    by (simp add: GetFileSHA1_eq)
  then show ?thesis by (simp add: CheckFileSHA1_def)
qed

theorem Update_then_CheckFileSHA1_witness:
  "Update stored_old world_idle
     = (None, \<lparr>Path = ''Gemfile.lock'', SHA = fingerprint ''GEM'', Content = ''GEM''\<rparr>,
        world_idle)
   \<and> CheckFileSHA1 \<lparr>Path = ''Gemfile.lock'', SHA = fingerprint ''GEM'', Content = ''GEM''\<rparr>
         world_idle = (None, world_idle)"
proof -
  have u: "Update stored_old world_idle
     = (None, \<lparr>Path = ''Gemfile.lock'', SHA = fingerprint ''GEM'', Content = ''GEM''\<rparr>,
        world_idle)"
    by (simp add: run_world worlds)
  have r: "ReadFile (Path stored_old) world_idle = (Inr ''GEM'', world_idle)"
    by (simp add: run_world worlds)
  from Update_then_CheckFileSHA1 [OF u r] u show ?thesis
    by simp
qed

text \<open>
  C4. \<open>Update\<close> is meant to replace the stored content and fingerprint together. The
  code stores the content before it computes the fingerprint: when the file is read the
  first time and not the second, \<open>Update\<close> returns the error with the new content
  next to the old fingerprint.
\<close>

theorem Update_error_after_content_stored:
  "Update stored_old world_second_read_fails
     = (Some (OSError (PathError ''read'' ''Gemfile.lock'')),
        \<lparr>Path = ''Gemfile.lock'', SHA = fingerprint ''OLD'', Content = ''NEW''\<rparr>,
        host [''Gemfile.lock'' \<mapsto> ''NEW''] [] (\<lambda>argv inp fs. run [] [] None fs))
   \<and> Content stored_old = ''OLD''"
  by (simp add: run_world worlds)

section \<open>Patch application\<close>



section \<open>The Rubygem update strategy\<close>



text \<open>
  C2. Whenever the strategy returns an error, Updated is the one the caller passed; an
  entry is appended to Updated only when the strategy returns no error.
\<close>

theorem RubygemsUpdater_error_leaves_Updated:
  "(\<forall>e. outcome (RubygemsUpdater vus orgs upts w) = Returned (Some e)
        \<longrightarrow> upt_files (RubygemsUpdater vus orgs upts w) = upts)
   \<and> (upt_files (RubygemsUpdater vus orgs upts w) \<noteq> upts
        \<longrightarrow> outcome (RubygemsUpdater vus orgs upts w) = Returned None)"
  by (simp add: RubygemsUpdater_def Let_def split: prod.splits list.splits option.splits)

theorem RubygemsUpdater_error_leaves_Updated_witness:
  "outcome (RubygemsUpdater [] [] [stored_old] world_conflict)
     = Returned (Some cantUpdateVersions)
   \<and> upt_files (RubygemsUpdater [] [] [stored_old] world_conflict) = [stored_old]
   \<and> upt_files (RubygemsUpdater [] [] [stored_old] world_rewrite) \<noteq> [stored_old]
   \<and> outcome (RubygemsUpdater [] [] [stored_old] world_rewrite) = Returned None"
proof -
  have o: "outcome (RubygemsUpdater [] [] [stored_old] world_conflict)
             = Returned (Some cantUpdateVersions)"
    by (simp add: run_world worlds)
  have u: "upt_files (RubygemsUpdater [] [] [stored_old] world_rewrite) \<noteq> [stored_old]"
    by (simp add: run_world worlds)
  from RubygemsUpdater_error_leaves_Updated [of "[]" "[]" "[stored_old]" world_conflict]
       RubygemsUpdater_error_leaves_Updated [of "[]" "[]" "[stored_old]" world_rewrite] o u
  show ?thesis by blast
qed







text \<open>
  C9. The snapshot step is meant never to dereference the nil pointer that
  \<open>NewDependencyFile\<close> returns for an unreadable file. Without a lock file the strategy
  dereferences it and panics.
\<close>

theorem RubygemsUpdater_nil_dereference:
  "NewDependencyFile ''Gemfile.lock'' world_no_lock = (None, world_no_lock)
   \<and> outcome (RubygemsUpdater [] [] [] world_no_lock) = Panicked NilDereference"
  by (simp add: run_world worlds)

end
